theory Spec2Isabelle
  imports Main "HOL-Library.AList"
begin

section \<open>JavaScript values handled by the server\<close>

text \<open>
  The bodies the inference provider returns and the detections the server relays are
  JSON values, read with JavaScript's rules for truthiness, property access and object
  spread. Numbers are modelled as integers (pixel sizes, indices, status codes); an
  object is the list of its own properties in order.
\<close>

datatype json =
    JUndefined
  | JNull
  | JBool bool
  | JNum int
  | JStr string
  | JArr "json list"
  | JObj "(string \<times> json) list"

fun truthy :: "json \<Rightarrow> bool" where
  "truthy JUndefined = False"
| "truthy JNull = False"
| "truthy (JBool b) = b"
| "truthy (JNum n) = (n \<noteq> 0)"
| "truthy (JStr s) = (s \<noteq> [])"
| "truthy (JArr xs) = True"
| "truthy (JObj kvs) = True"

text \<open>\<open>a || b\<close>\<close>

definition js_or :: "json \<Rightarrow> json \<Rightarrow> json" where
  "js_or a b = (if truthy a then a else b)"

text \<open>\<open>s || t\<close> on strings: the empty string is falsy.\<close>

definition str_or :: "string \<Rightarrow> string \<Rightarrow> string" where
  "str_or s t = (if s \<noteq> [] then s else t)"

fun nullish :: "json \<Rightarrow> bool" where
  "nullish JUndefined = True"
| "nullish JNull = True"
| "nullish v = False"

text \<open>
  A JavaScript Error as the server reads it: \<open>error.message\<close>, \<open>error.code\<close>,
  \<open>error.response\<close> (set by axios when the provider answered with a failing status) and
  whether it is an instance of \<open>multer.MulterError\<close>.
\<close>

record remote_response =
  status :: nat
  statusText :: string
  data :: json

record js_error =
  message :: string
  code :: "string option"
  response :: "remote_response option"
  is_MulterError :: bool

definition Error :: "string \<Rightarrow> js_error" where
  "Error msg = \<lparr>message = msg, code = None, response = None, is_MulterError = False\<rparr>"

definition MulterError :: "string \<Rightarrow> string \<Rightarrow> js_error" where
  "MulterError c msg = \<lparr>message = msg, code = Some c, response = None, is_MulterError = True\<rparr>"

text \<open>
  Property access \<open>v.k\<close> for the keys the server reads (predictions, image, width,
  height, message, error). None of them is a property of a string, number, boolean or
  array, so only an object can hold them; on \<open>null\<close> and \<open>undefined\<close> the access
  raises a TypeError (message as V8 words it).
\<close>

fun js_get :: "json \<Rightarrow> string \<Rightarrow> json" where
  "js_get (JObj kvs) k = (case map_of kvs k of Some v \<Rightarrow> v | None \<Rightarrow> JUndefined)"
| "js_get v k = JUndefined"

definition js_member :: "json \<Rightarrow> string \<Rightarrow> js_error + json" where
  "js_member v k =
     (if nullish v
      then Inl (Error (''Cannot read properties of ''
                  @ (if v = JNull then ''null'' else ''undefined'')
                  @ '' (reading '' @ [CHR 0x27] @ k @ [CHR 0x27] @ '')''))
      else Inr (js_get v k))"

text \<open>\<open>v?.k\<close>\<close>

definition js_member_opt :: "json \<Rightarrow> string \<Rightarrow> json" where
  "js_member_opt v k = (if nullish v then JUndefined else js_get v k)"

text \<open>Decimal rendering of a number, as in a template literal or an index key.\<close>

fun show_nat :: "nat \<Rightarrow> string" where
  "show_nat n =
     (if n < 10 then [char_of (48 + n)]
      else show_nat (n div 10) @ [char_of (48 + n mod 10)])"

definition show_int :: "int \<Rightarrow> string" where
  "show_int z = (if z < 0 then CHR ''-'' # show_nat (nat (- z)) else show_nat (nat z))"

text \<open>
  Object spread \<open>{...p}\<close>: the own enumerable properties of \<open>p\<close>. An object gives its
  properties, an array and a string give their index keys, any other value gives nothing.
\<close>

fun spread :: "json \<Rightarrow> (string \<times> json) list" where
  "spread (JObj kvs) = kvs"
| "spread (JArr xs) = map (\<lambda>(j, x). (show_nat j, x)) (enumerate 0 xs)"
| "spread (JStr s) = map (\<lambda>(j, c). (show_nat j, JStr [c])) (enumerate 0 s)"
| "spread v = []"

text \<open>
  \<open>String(v)\<close>, as a template literal renders a value. An array joins its elements with
  commas, \<open>null\<close> and \<open>undefined\<close> elements rendering as the empty string.
\<close>

fun join_comma :: "string list \<Rightarrow> string" where
  "join_comma [] = []"
| "join_comma [s] = s"
| "join_comma (s # t # ss) = s @ '','' @ join_comma (t # ss)"

fun js_to_string :: "json \<Rightarrow> string" where
  "js_to_string JUndefined = ''undefined''"
| "js_to_string JNull = ''null''"
| "js_to_string (JBool b) = (if b then ''true'' else ''false'')"
| "js_to_string (JNum n) = show_int n"
| "js_to_string (JStr s) = s"
| "js_to_string (JArr xs) =
     join_comma (map (\<lambda>x. if nullish x then [] else js_to_string x) xs)"
| "js_to_string (JObj kvs) = ''[object Object]''"

declare show_nat.simps [simp del]

section \<open>Upload middleware\<close>

text \<open>
  A file as the upload middleware hands it to \<open>fileFilter\<close> and, once accepted, to the
  handler in \<open>req.files\<close>: the client's file name, the declared media type and the
  number of bytes of content (the content itself plays no part in the server's
  decisions).
\<close>

record upload_part =
  originalname :: string
  mimetype :: string
  size_bytes :: nat

text \<open>
  The parts of a multipart body that bear on the upload, in the order of the body.
  \<^item> \<open>FilePart file cut_at_limit\<close> is a part the library's parser reports as a file:
    one whose header carries a file name (under any field name). \<open>originalname\<close> is
    empty when that file name is empty. The parser cuts the content of a file longer than
    \<open>limits.fileSize\<close> and never that of a shorter one; releases of the library differ
    on a file of exactly that length, and \<open>cut_at_limit\<close> says whether the one in use
    cuts it.
  \<^item> \<open>Refused err\<close> is a part at which the library ends the upload with \<open>err\<close> for a
    reason of its own, such as a text field longer than the library's default limit (the
    MulterError \<open>LIMIT_FIELD_VALUE\<close>) or a part it cannot parse.
  A part without a file name in its header is never a file of \<open>req.files\<close>: the
  library takes it as a text field of \<open>req.body\<close> or passes it over. Such a part is
  listed only when the library refuses it, as a \<open>Refused\<close> part.
\<close>

datatype body_part =
    FilePart upload_part bool
  | Refused js_error

text \<open>
  A request to \<open>POST /api/analyze\<close>: the parts above, and the value of the text field
  \<open>area\<close> in \<open>req.body\<close>, if sent. A request that is not multipart has no parts.
\<close>

record request =
  file_parts :: "body_part list"
  area_field :: "string option"

text \<open>\<open>limits.fileSize\<close>\<close>

definition fileSize :: nat where
  "fileSize = 10 * 1024 * 1024"

text \<open>
  \<open>fileFilter\<close>: \<open>cb(null, true)\<close> is \<open>None\<close>, \<open>cb(new Error(...), false)\<close> is the
  error.
\<close>

definition fileFilter :: "upload_part \<Rightarrow> js_error option" where
  "fileFilter file =
     (if take 6 (mimetype file) = ''image/'' then None
      else Some (Error ''Only image files are allowed''))"

text \<open>Whether the parser cuts the content of a file at \<open>limits.fileSize\<close>.\<close>

definition over_limit :: "upload_part \<Rightarrow> bool \<Rightarrow> bool" where
  "over_limit file cut_at_limit =
     (fileSize < size_bytes file \<or> (cut_at_limit \<and> size_bytes file = fileSize))"

text \<open>
  What \<open>upload.any()\<close> with memory storage does at one part: a file with an empty file
  name is passed over; \<open>fileFilter\<close> is asked about a file before any of its content is
  stored; a file whose content the parser cuts raises the MulterError
  \<open>LIMIT_FILE_SIZE\<close>. The result is the error that ends the upload there, if any.
\<close>

fun part_error :: "body_part \<Rightarrow> js_error option" where
  "part_error (FilePart file cut_at_limit) =
     (if originalname file = [] then None
      else case fileFilter file of
        Some err \<Rightarrow> Some err
      | None \<Rightarrow>
          if over_limit file cut_at_limit
          then Some (MulterError ''LIMIT_FILE_SIZE'' ''File too large'')
          else None)"
| "part_error (Refused err) = Some err"

text \<open>The files a part adds to \<open>req.files\<close> when it passes.\<close>

fun stored_files :: "body_part \<Rightarrow> upload_part list" where
  "stored_files (FilePart file cut_at_limit) = (if originalname file = [] then [] else [file])"
| "stored_files (Refused err) = []"

text \<open>
  \<open>upload.any()\<close>: the parts are taken in the order of the body and the first error
  ends the upload and is given to the callback. Without an error \<open>req.files\<close> holds the
  accepted files in order.
\<close>

fun multer_any :: "body_part list \<Rightarrow> js_error + upload_part list" where
  "multer_any [] = Inr []"
| "multer_any (p # ps) =
     (case part_error p of
        Some err \<Rightarrow> Inl err
      | None \<Rightarrow>
          (case multer_any ps of
             Inl err \<Rightarrow> Inl err
           | Inr files \<Rightarrow> Inr (stored_files p @ files)))"

section \<open>Replies\<close>

text \<open>
  The outcome of one image, as pushed on \<open>results\<close>: the success object
  \<open>{imageIndex, imageName, predictions, image_width, image_height}\<close> or the failure object
  \<open>{imageIndex, imageName, error, predictions: []}\<close>.
\<close>

datatype item_result =
    is_Success: Success (imageIndex: nat) (imageName: string) (predictions: "json list")
            (image_width: json) (image_height: json)
  | Failure (imageIndex: nat) (imageName: string) (error: string) (predictions: "json list")

text \<open>
  The body of the 200 reply; \<open>allPredictions\<close> is sent under the key \<open>predictions\<close>.
\<close>

record analysis =
  success :: bool
  area :: string
  results :: "item_result list"
  allPredictions :: "json list"
  image_count :: nat
  total_defects :: nat

text \<open>
  A reply body: \<open>{error, message}\<close>, the analysis, or
  \<open>{error, message, status, statusText, roboflowError}\<close>.
\<close>

datatype body =
    ErrorBody string string
  | AnalysisBody analysis
  | RoboflowErrorBody string json nat string json

datatype reply = Reply (http_status: nat) (reply_body: body)

text \<open>The error-handling middleware at the end of the chain.\<close>

definition error_middleware :: "js_error \<Rightarrow> reply" where
  "error_middleware err =
     Reply 500 (ErrorBody ''Internal server error''
                  (str_or (message err) ''An unexpected error occurred''))"

text \<open>The callback given to \<open>upload.any()\<close>, on an error.\<close>

definition upload_error_reply :: "js_error \<Rightarrow> reply" where
  "upload_error_reply err =
     (if message err = ''Only image files are allowed''
      then Reply 400 (ErrorBody ''Invalid file type'' ''Only image files are allowed'')
      else if is_MulterError err
      then (if code err = Some ''LIMIT_FILE_SIZE''
            then Reply 400 (ErrorBody ''File too large'' ''Image must be less than 10MB'')
            else Reply 400 (ErrorBody ''Upload error'' (message err)))
      else error_middleware err)"

section \<open>Configuration\<close>

text \<open>The two environment variables; \<open>None\<close> is an unset variable.\<close>

record env =
  env_ROBOFLOW_API_KEY :: "string option"
  env_ROBOFLOW_MODEL_ID :: "string option"

definition ROBOFLOW_API_KEY :: "env \<Rightarrow> string" where
  "ROBOFLOW_API_KEY e =
     str_or (case env_ROBOFLOW_API_KEY e of Some s \<Rightarrow> s | None \<Rightarrow> []) ''YOUR_KEY_HERE''"

definition ROBOFLOW_MODEL_ID :: "env \<Rightarrow> string" where
  "ROBOFLOW_MODEL_ID e =
     str_or (case env_ROBOFLOW_MODEL_ID e of Some s \<Rightarrow> s | None \<Rightarrow> []) ''YOUR_MODEL_ID_HERE''"

definition ROBOFLOW_API_URL :: "env \<Rightarrow> string" where
  "ROBOFLOW_API_URL e = ''https://detect.roboflow.com/'' @ ROBOFLOW_MODEL_ID e"

text \<open>The condition of the "API not configured" rejection.\<close>

definition not_configured :: "env \<Rightarrow> bool" where
  "not_configured e =
     (ROBOFLOW_API_KEY e = ''YOUR_KEY_HERE'' \<or> ROBOFLOW_MODEL_ID e = ''YOUR_MODEL_ID_HERE''
      \<or> ROBOFLOW_API_KEY e = [] \<or> ROBOFLOW_MODEL_ID e = [])"

section \<open>The inference provider\<close>

text \<open>
  One \<open>axios.post\<close>: the address with the credential, and the single file of the form
  data. The provider is a parameter of the model: it maps the number of the call within
  the request and the call to what axios does, resolving with \<open>response.data\<close> or
  rejecting with an error.
\<close>

record remote_call =
  url :: string
  filename :: string
  contentType :: string
  content_bytes :: nat

datatype axios_result = Resolved json | Rejected js_error

type_synonym remote = "nat \<Rightarrow> remote_call \<Rightarrow> axios_result"

section \<open>The analyze handler\<close>

text \<open>\<open>file.originalname || `image_${i + 1}.jpg`\<close>\<close>

definition image_name :: "nat \<Rightarrow> upload_part \<Rightarrow> string" where
  "image_name i file = str_or (originalname file) (''image_'' @ show_nat (i + 1) @ ''.jpg'')"

definition post_call :: "env \<Rightarrow> nat \<Rightarrow> upload_part \<Rightarrow> remote_call" where
  "post_call e i file =
     \<lparr>url = ROBOFLOW_API_URL e @ ''?api_key='' @ ROBOFLOW_API_KEY e,
      filename = image_name i file,
      contentType = mimetype file,
      content_bytes = size_bytes file\<rparr>"

text \<open>\<open>{...p, imageIndex: i, imageName: name}\<close>\<close>

definition stamp :: "nat \<Rightarrow> string \<Rightarrow> json \<Rightarrow> json" where
  "stamp i name p =
     JObj (AList.update ''imageName'' (JStr name)
            (AList.update ''imageIndex'' (JNum (int i)) (spread p)))"

text \<open>
  The body of the per-image \<open>try\<close>: the call, then the success object. It raises
  (\<open>Inl\<close>) when axios rejects, when \<open>response.data\<close> is \<open>null\<close> or \<open>undefined\<close>, and
  when \<open>predictions\<close> is truthy but has no \<open>map\<close> method.
\<close>

definition item_try :: "env \<Rightarrow> remote \<Rightarrow> nat \<Rightarrow> upload_part \<Rightarrow> js_error + item_result" where
  "item_try e remote i file =
     (case remote i (post_call e i file) of
        Rejected err \<Rightarrow> Inl err
      | Resolved d \<Rightarrow>
          (case js_member d ''predictions'' of
             Inl err \<Rightarrow> Inl err
           | Inr p \<Rightarrow>
               (case js_or p (JArr []) of
                  JArr ps \<Rightarrow>
                    Inr (Success i (image_name i file)
                           (map (stamp i (image_name i file)) ps)
                           (js_or (js_member_opt (js_get d ''image'') ''width'') JNull)
                           (js_or (js_member_opt (js_get d ''image'') ''height'') JNull))
                | _ \<Rightarrow>
                    Inl (Error ''(response.data.predictions || []).map is not a function''))))"

text \<open>One iteration of the loop: the \<open>try\<close> with its \<open>catch\<close>.\<close>

definition dispatch_item :: "env \<Rightarrow> remote \<Rightarrow> nat \<Rightarrow> upload_part \<Rightarrow> item_result" where
  "dispatch_item e remote i file =
     (case item_try e remote i file of
        Inr r \<Rightarrow> r
      | Inl err \<Rightarrow>
          Failure i (image_name i file) (str_or (message err) ''Failed to process image'') [])"

text \<open>
  The \<open>for\<close> loop from index \<open>i\<close> over the files left, pushing on \<open>results\<close>; the
  second list records the calls made to the provider.
\<close>

fun dispatch_loop ::
  "env \<Rightarrow> remote \<Rightarrow> nat \<Rightarrow> upload_part list \<Rightarrow> item_result list \<times> remote_call list
     \<Rightarrow> item_result list \<times> remote_call list" where
  "dispatch_loop e remote i [] acc = acc"
| "dispatch_loop e remote i (file # rest) (rs, calls) =
     dispatch_loop e remote (Suc i) rest
       (rs @ [dispatch_item e remote i file], calls @ [post_call e i file])"

text \<open>
  The outer \<open>try\<close> block, given \<open>req.files\<close> and \<open>req.body.area\<close>. It returns the
  reply or the error raised (no statement outside the per-image \<open>try\<close> raises), and the
  calls made.
\<close>

definition handler_try ::
  "env \<Rightarrow> remote \<Rightarrow> upload_part list \<Rightarrow> string option \<Rightarrow> (js_error + reply) \<times> remote_call list" where
  "handler_try e remote files area_opt =
     (if files = []
      then (Inr (Reply 400 (ErrorBody ''No images provided''
                              ''Please upload at least one image file'')), [])
      else if not_configured e
      then (Inr (Reply 500 (ErrorBody ''API not configured''
              ''Please set ROBOFLOW_API_KEY and ROBOFLOW_MODEL_ID in your .env file'')), [])
      else
        (let selectedArea = str_or (case area_opt of Some a \<Rightarrow> a | None \<Rightarrow> []) ''unknown'';
             (rs, calls) = dispatch_loop e remote 0 files ([], []);
             allp = concat (map predictions rs)
         in (Inr (Reply 200 (AnalysisBody
                   \<lparr>success = True, area = selectedArea, results = rs,
                    allPredictions = allp, image_count = length rs,
                    total_defects = length allp\<rparr>)), calls)))"

definition forbidden_guidance :: string where
  "forbidden_guidance =
     ''Access forbidden. Possible issues:'' @ [CHR 0x0A]
     @ ''1. Invalid API key - Check your Roboflow API key in .env file'' @ [CHR 0x0A]
     @ ''2. API key doesn'' @ [CHR 0x27] @ ''t have permission for this model'' @ [CHR 0x0A]
     @ ''3. Model ID might be incorrect - Format should be: project-name/version-number''
     @ [CHR 0x0A]
     @ ''4. Model might not be deployed or public'' @ [CHR 0x0A, CHR 0x0A]
     @ ''Error details: ''"

text \<open>The outer \<open>catch\<close> block.\<close>

definition outer_catch :: "js_error \<Rightarrow> reply" where
  "outer_catch err =
     (case response err of
        Some r \<Rightarrow>
          (let st = (if status r \<noteq> 0 then status r else 500);
               stText = str_or (statusText r) ''Unknown error'';
               errorMessage =
                 js_or (js_or (js_member_opt (data r) ''message'')
                              (js_member_opt (data r) ''error''))
                       (JStr (message err));
               userMessage =
                 (if st = 403 then JStr (forbidden_guidance @ js_to_string errorMessage)
                  else if st = 401
                  then JStr ''Unauthorized. Check your Roboflow API key in .env file.''
                  else if st = 404
                  then JStr (''Model not found. Check your MODEL_ID in .env file. ''
                             @ ''Format: project-name/version-number'')
                  else errorMessage)
           in Reply st (RoboflowErrorBody ''Roboflow API error'' userMessage st stText
                          errorMessage))
      | None \<Rightarrow>
          if code err = Some ''LIMIT_FILE_SIZE''
          then Reply 400 (ErrorBody ''File too large'' ''Image must be less than 10MB'')
          else Reply 500 (ErrorBody ''Internal server error''
                            (str_or (message err) ''Failed to analyze image'')))"

text \<open>
  \<open>POST /api/analyze\<close>: the upload middleware, then the handler with its outer
  \<open>try\<close>/\<open>catch\<close>. The result is the reply and the calls made to the provider.
\<close>

definition analyze :: "env \<Rightarrow> remote \<Rightarrow> request \<Rightarrow> reply \<times> remote_call list" where
  "analyze e remote req =
     (case multer_any (file_parts req) of
        Inl err \<Rightarrow> (upload_error_reply err, [])
      | Inr files \<Rightarrow>
          (case handler_try e remote files (area_field req) of
             (Inr rep, calls) \<Rightarrow> (rep, calls)
           | (Inl err, calls) \<Rightarrow> (outer_catch err, calls)))"

section \<open>Sample requests\<close>

text \<open>Concrete environments, files and providers on which the theorems are exercised.\<close>

definition sample_env :: env where
  "sample_env =
     \<lparr>env_ROBOFLOW_API_KEY = Some ''rf_key'',
      env_ROBOFLOW_MODEL_ID = Some ''airplane-inspection/1''\<rparr>"

definition unset_env :: env where
  "unset_env = \<lparr>env_ROBOFLOW_API_KEY = None, env_ROBOFLOW_MODEL_ID = None\<rparr>"

definition placeholder_env :: env where
  "placeholder_env =
     \<lparr>env_ROBOFLOW_API_KEY = Some ''YOUR_KEY_HERE'',
      env_ROBOFLOW_MODEL_ID = Some ''airplane-inspection/1''\<rparr>"

definition wing_png :: upload_part where
  "wing_png = \<lparr>originalname = ''wing.png'', mimetype = ''image/png'', size_bytes = 2048\<rparr>"

definition tail_jpg :: upload_part where
  "tail_jpg = \<lparr>originalname = ''tail.jpg'', mimetype = ''image/jpeg'', size_bytes = 4096\<rparr>"

definition big_png :: upload_part where
  "big_png =
     \<lparr>originalname = ''big.png'', mimetype = ''image/png'', size_bytes = 11 * 1024 * 1024\<rparr>"

definition notes_txt :: upload_part where
  "notes_txt = \<lparr>originalname = ''notes.txt'', mimetype = ''text/plain'', size_bytes = 20\<rparr>"

definition dump_txt :: upload_part where
  "dump_txt =
     \<lparr>originalname = ''dump.txt'', mimetype = ''text/plain'', size_bytes = 11 * 1024 * 1024\<rparr>"

definition crack :: json where
  "crack = JObj [(''class'', JStr ''crack''), (''confidence'', JNum 87)]"

definition one_crack :: json where
  "one_crack =
     JObj [(''predictions'', JArr [crack]),
           (''image'', JObj [(''width'', JNum 640), (''height'', JNum 480)])]"

definition timeout_error :: js_error where
  "timeout_error =
     \<lparr>message = ''timeout of 10000ms exceeded'', code = Some ''ECONNABORTED'',
      response = None, is_MulterError = False\<rparr>"

definition forbidden_error :: js_error where
  "forbidden_error =
     \<lparr>message = ''Request failed with status code 403'', code = Some ''ERR_BAD_REQUEST'',
      response = Some \<lparr>status = 403, statusText = ''Forbidden'',
                        data = JObj [(''message'', JStr ''Forbidden'')]\<rparr>,
      is_MulterError = False\<rparr>"

text \<open>A provider whose first call of a request times out and whose later calls find one crack.\<close>

definition first_fails :: remote where
  "first_fails i c = (if i = 0 then Rejected timeout_error else Resolved one_crack)"

text \<open>A provider that refuses every call with status 403.\<close>

definition always_forbidden :: remote where
  "always_forbidden i c = Rejected forbidden_error"

text \<open>A provider that answers with an empty object, and one that reports a width of 0.\<close>

definition empty_answer :: remote where
  "empty_answer i c = Resolved (JObj [])"

definition zero_width :: remote where
  "zero_width i c =
     Resolved (JObj [(''predictions'', JArr []),
                     (''image'', JObj [(''width'', JNum 0), (''height'', JNum 480)])])"

text \<open>A provider that answers every call with a page of text instead of JSON.\<close>

definition html_answer :: remote where
  "html_answer i c = Resolved (JStr ''<html>502 Bad Gateway</html>'')"

text \<open>The error the library raises at a text field longer than its default limit.\<close>

definition field_too_long :: js_error where
  "field_too_long = MulterError ''LIMIT_FIELD_VALUE'' ''Field value too long''"

section \<open>The dispatch loop and the handler\<close>

lemma dispatch_loop_eq:
  "dispatch_loop e remote i files (rs, calls) =
     (rs @ map (\<lambda>(j, f). dispatch_item e remote j f) (enumerate i files),
      calls @ map (\<lambda>(j, f). post_call e j f) (enumerate i files))"
  by (induction files arbitrary: i rs calls) simp_all

lemma handler_try_ok:
  assumes "files \<noteq> []" and "\<not> not_configured e"
  shows "handler_try e remote files area_opt =
     (Inr (Reply 200 (AnalysisBody
        \<lparr>success = True,
         area = str_or (case area_opt of Some a \<Rightarrow> a | None \<Rightarrow> []) ''unknown'',
         results = map (\<lambda>(j, f). dispatch_item e remote j f) (enumerate 0 files),
         allPredictions = concat (map predictions
            (map (\<lambda>(j, f). dispatch_item e remote j f) (enumerate 0 files))),
         image_count = length files,
         total_defects = length (concat (map predictions
            (map (\<lambda>(j, f). dispatch_item e remote j f) (enumerate 0 files))))\<rparr>)),
      map (\<lambda>(j, f). post_call e j f) (enumerate 0 files))"
  using assms by (simp add: handler_try_def dispatch_loop_eq Let_def)

lemma item_try_InrD:
  assumes "item_try e remote i file = Inr r"
  shows "\<exists>d ps. remote i (post_call e i file) = Resolved d \<and> \<not> nullish d
           \<and> js_or (js_get d ''predictions'') (JArr []) = JArr ps
           \<and> r = Success i (image_name i file) (map (stamp i (image_name i file)) ps)
                   (js_or (js_member_opt (js_get d ''image'') ''width'') JNull)
                   (js_or (js_member_opt (js_get d ''image'') ''height'') JNull)"
  using assms
  by (auto simp: item_try_def js_member_def
           split: axios_result.splits sum.splits json.splits if_splits)

lemma item_try_Resolved:
  assumes "remote i (post_call e i f) = Resolved d" and "\<not> nullish d"
    and "js_or (js_get d ''predictions'') (JArr []) = JArr ps"
  shows "item_try e remote i f =
     Inr (Success i (image_name i f) (map (stamp i (image_name i f)) ps)
            (js_or (js_member_opt (js_get d ''image'') ''width'') JNull)
            (js_or (js_member_opt (js_get d ''image'') ''height'') JNull))"
  using assms by (simp add: item_try_def js_member_def)

lemma item_try_Rejected:
  "remote i (post_call e i f) = Rejected err \<Longrightarrow> item_try e remote i f = Inl err"
  by (simp add: item_try_def)

lemma dispatch_item_cases:
  "(\<exists>r. item_try e remote i file = Inr r \<and> dispatch_item e remote i file = r) \<or>
   (\<exists>err. item_try e remote i file = Inl err \<and>
      dispatch_item e remote i file =
        Failure i (image_name i file) (str_or (message err) ''Failed to process image'') [])"
  by (cases "item_try e remote i file") (simp_all add: dispatch_item_def)

lemma js_get_stamp_index: "js_get (stamp i name p) ''imageIndex'' = JNum (int i)"
  by (simp add: stamp_def update_conv')

lemma js_get_stamp_name: "js_get (stamp i name p) ''imageName'' = JStr name"
  by (simp add: stamp_def update_conv')

lemma str_or_nonempty: "t \<noteq> [] \<Longrightarrow> str_or s t \<noteq> []"
  by (simp add: str_or_def)

lemma dispatch_item_index [simp]: "imageIndex (dispatch_item e remote i f) = i"
  using dispatch_item_cases [of e remote i f] by (auto dest: item_try_InrD)

lemma dispatch_item_name [simp]:
  "imageName (dispatch_item e remote i f) = image_name i f"
  using dispatch_item_cases [of e remote i f] by (auto dest: item_try_InrD)

lemma dispatch_item_failure_empty:
  "\<not> is_Success (dispatch_item e remote i f) \<Longrightarrow>
     predictions (dispatch_item e remote i f) = []"
  using dispatch_item_cases [of e remote i f] by (auto dest: item_try_InrD)

lemma dispatch_item_failure_message:
  "\<not> is_Success (dispatch_item e remote i f) \<Longrightarrow>
     error (dispatch_item e remote i f) \<noteq> []"
  using dispatch_item_cases [of e remote i f]
  by (auto dest: item_try_InrD simp: str_or_nonempty)

lemma dispatch_item_SuccessD:
  assumes "is_Success (dispatch_item e remote i f)"
  shows "\<exists>d ps. remote i (post_call e i f) = Resolved d \<and> \<not> nullish d
           \<and> js_or (js_get d ''predictions'') (JArr []) = JArr ps
           \<and> dispatch_item e remote i f =
               Success i (image_name i f) (map (stamp i (image_name i f)) ps)
                   (js_or (js_member_opt (js_get d ''image'') ''width'') JNull)
                   (js_or (js_member_opt (js_get d ''image'') ''height'') JNull)"
  using dispatch_item_cases [of e remote i f] assms by (auto dest: item_try_InrD)

lemma dispatch_item_Resolved:
  assumes "remote i (post_call e i f) = Resolved d" and "\<not> nullish d"
    and "js_or (js_get d ''predictions'') (JArr []) = JArr ps"
  shows "dispatch_item e remote i f =
     Success i (image_name i f) (map (stamp i (image_name i f)) ps)
       (js_or (js_member_opt (js_get d ''image'') ''width'') JNull)
       (js_or (js_member_opt (js_get d ''image'') ''height'') JNull)"
  using item_try_Resolved [of remote i e f d ps, OF assms] by (simp add: dispatch_item_def)

lemma dispatch_item_Rejected:
  "remote i (post_call e i f) = Rejected err \<Longrightarrow>
     dispatch_item e remote i f
       = Failure i (image_name i f) (str_or (message err) ''Failed to process image'') []"
  by (simp add: dispatch_item_def item_try_Rejected)

lemma dispatch_item_Success_iff:
  assumes "remote i (post_call e i f) = Resolved d"
  shows "is_Success (dispatch_item e remote i f) \<longleftrightarrow>
           \<not> nullish d \<and> (\<exists>ps. js_or (js_get d ''predictions'') (JArr []) = JArr ps)"
proof
  assume "is_Success (dispatch_item e remote i f)"
  from dispatch_item_SuccessD [OF this] assms
  show "\<not> nullish d \<and> (\<exists>ps. js_or (js_get d ''predictions'') (JArr []) = JArr ps)"
    by auto
next
  assume "\<not> nullish d \<and> (\<exists>ps. js_or (js_get d ''predictions'') (JArr []) = JArr ps)"
  then obtain ps where n: "\<not> nullish d"
    and a: "js_or (js_get d ''predictions'') (JArr []) = JArr ps" by blast
  from dispatch_item_Resolved [of remote i e f d ps, OF assms n a]
  show "is_Success (dispatch_item e remote i f)" by simp
qed

lemma concat_predictions_filter:
  "\<forall>r\<in>set rs. \<not> is_Success r \<longrightarrow> predictions r = [] \<Longrightarrow>
     concat (map predictions rs) = concat (map predictions (filter is_Success rs))"
  by (induction rs) auto

lemma nth_dispatch:
  "i < length files \<Longrightarrow>
     map (\<lambda>(j, f). dispatch_item e remote j f) (enumerate 0 files) ! i
       = dispatch_item e remote i (files ! i)"
  by (simp add: nth_enumerate_eq)

lemma analyze_accepted:
  assumes up: "multer_any (file_parts req) = Inr files"
    and files: "files \<noteq> []"
    and conf: "\<not> not_configured e"
  shows "analyze e remote req =
     (Reply 200 (AnalysisBody
        \<lparr>success = True,
         area = str_or (case area_field req of Some a \<Rightarrow> a | None \<Rightarrow> []) ''unknown'',
         results = map (\<lambda>(j, f). dispatch_item e remote j f) (enumerate 0 files),
         allPredictions = concat (map predictions
            (map (\<lambda>(j, f). dispatch_item e remote j f) (enumerate 0 files))),
         image_count = length files,
         total_defects = length (concat (map predictions
            (map (\<lambda>(j, f). dispatch_item e remote j f) (enumerate 0 files))))\<rparr>),
      map (\<lambda>(j, f). post_call e j f) (enumerate 0 files))"
  using up by (simp add: analyze_def handler_try_ok [OF files conf])

section \<open>The upload middleware and its callback\<close>

lemma multer_any_passes:
  "\<forall>q\<in>set parts. part_error q = None \<Longrightarrow>
     multer_any parts = Inr (concat (map stored_files parts))"
  by (induction parts) auto

lemma multer_any_InrD:
  "multer_any parts = Inr files \<Longrightarrow>
     files = concat (map stored_files parts) \<and> (\<forall>q\<in>set parts. part_error q = None)"
  by (induction parts arbitrary: files) (auto split: option.splits sum.splits)

lemma multer_any_images:
  assumes "\<forall>q\<in>set parts. \<exists>f c. q = FilePart f c \<and> originalname f \<noteq> []
              \<and> take 6 (mimetype f) = ''image/'' \<and> size_bytes f < fileSize"
  shows "multer_any parts = Inr (concat (map stored_files parts))
       \<and> length (concat (map stored_files parts)) = length parts"
proof -
  have "\<forall>q\<in>set parts. part_error q = None \<and> length (stored_files q) = 1"
    using assms by (auto simp: fileFilter_def over_limit_def)
  then show ?thesis
    by (induction parts) auto
qed

lemma multer_any_rejects:
  "q \<in> set parts \<Longrightarrow> part_error q = Some err0 \<Longrightarrow> \<exists>err. multer_any parts = Inl err"
  by (induction parts) (auto split: option.splits sum.splits)

lemma multer_any_first:
  "\<forall>q\<in>set pre. part_error q = None \<Longrightarrow> part_error p = Some err \<Longrightarrow>
     multer_any (pre @ p # post) = Inl err"
  by (induction pre) auto

lemma split_at_first:
  "p \<in> set ps \<Longrightarrow> \<exists>post. ps = takeWhile (\<lambda>q. q \<noteq> p) ps @ p # post"
  by (induction ps) auto

lemma multer_any_reaches:
  assumes "p \<in> set parts"
    and "\<forall>q\<in>set (takeWhile (\<lambda>q. q \<noteq> p) parts). part_error q = None"
    and "part_error p = Some err"
  shows "multer_any parts = Inl err"
proof -
  from split_at_first [OF assms(1)] obtain post where
    sp: "parts = takeWhile (\<lambda>q. q \<noteq> p) parts @ p # post" by blast
  have "multer_any (takeWhile (\<lambda>q. q \<noteq> p) parts @ p # post) = Inl err"
    using assms(2,3) by (rule multer_any_first)
  with sp show ?thesis by simp
qed

lemma upload_error_reply_cases:
  "\<exists>st c m. upload_error_reply err = Reply st (ErrorBody c m) \<and> (st = 400 \<or> st = 500)"
  by (simp add: upload_error_reply_def error_middleware_def)

lemma upload_error_reply_type:
  "upload_error_reply (Error ''Only image files are allowed'')
     = Reply 400 (ErrorBody ''Invalid file type'' ''Only image files are allowed'')"
  by (simp add: upload_error_reply_def Error_def)

lemma upload_error_reply_size:
  "upload_error_reply (MulterError ''LIMIT_FILE_SIZE'' ''File too large'')
     = Reply 400 (ErrorBody ''File too large'' ''Image must be less than 10MB'')"
  by (simp add: upload_error_reply_def MulterError_def)

lemma analyze_Inl:
  "multer_any (file_parts req) = Inl err \<Longrightarrow>
     analyze e remote req = (upload_error_reply err, [])"
  by (simp add: analyze_def)

lemma analyze_refused:
  assumes "q \<in> set (file_parts req)" and "part_error q = Some err0"
  shows "snd (analyze e remote req) = []
       \<and> (\<exists>st c m. fst (analyze e remote req) = Reply st (ErrorBody c m)
                    \<and> (st = 400 \<or> st = 500))"
proof -
  from multer_any_rejects [OF assms] obtain err where
    "multer_any (file_parts req) = Inl err" by blast
  then have "analyze e remote req = (upload_error_reply err, [])" by (rule analyze_Inl)
  with upload_error_reply_cases [of err] show ?thesis by simp
qed

section \<open>Evaluation on the sample requests\<close>

lemmas model_defs =
  analyze_def handler_try_def upload_error_reply_def error_middleware_def outer_catch_def
  fileFilter_def fileSize_def over_limit_def not_configured_def ROBOFLOW_API_KEY_def
  ROBOFLOW_MODEL_ID_def ROBOFLOW_API_URL_def dispatch_item_def item_try_def post_call_def
  image_name_def stamp_def js_member_def js_member_opt_def js_or_def str_or_def Error_def
  MulterError_def Let_def

lemmas sample_defs =
  sample_env_def unset_env_def placeholder_env_def wing_png_def tail_jpg_def big_png_def
  notes_txt_def dump_txt_def crack_def one_crack_def timeout_error_def forbidden_error_def
  first_fails_def always_forbidden_def empty_answer_def zero_width_def html_answer_def
  field_too_long_def

lemma multer_any_two_images:
  "multer_any [FilePart wing_png False, FilePart tail_jpg False] = Inr [wing_png, tail_jpg]"
  by (simp add: model_defs sample_defs)

lemma configured_sample_env: "\<not> not_configured sample_env"
  by (simp add: model_defs sample_defs)

lemma analyze_first_fails:
  "analyze sample_env first_fails 
     \<lparr>file_parts = [FilePart wing_png False, FilePart tail_jpg False], area_field = Some ''wing''\<rparr>
   = (Reply 200 (AnalysisBody
        \<lparr>success = True, area = ''wing'',
         results =
           [Failure 0 ''wing.png'' ''timeout of 10000ms exceeded'' [],
            Success 1 ''tail.jpg''
              [JObj [(''class'', JStr ''crack''), (''confidence'', JNum 87),
                     (''imageIndex'', JNum 1), (''imageName'', JStr ''tail.jpg'')]]
              (JNum 640) (JNum 480)],
         allPredictions =
           [JObj [(''class'', JStr ''crack''), (''confidence'', JNum 87),
                  (''imageIndex'', JNum 1), (''imageName'', JStr ''tail.jpg'')]],
         image_count = 2, total_defects = 1\<rparr>),
      [\<lparr>url = ''https://detect.roboflow.com/airplane-inspection/1?api_key=rf_key'',
        filename = ''wing.png'', contentType = ''image/png'', content_bytes = 2048\<rparr>,
       \<lparr>url = ''https://detect.roboflow.com/airplane-inspection/1?api_key=rf_key'',
        filename = ''tail.jpg'', contentType = ''image/jpeg'', content_bytes = 4096\<rparr>])"
  by (simp add: model_defs sample_defs)

section \<open>Aggregation under partial failure\<close>

text \<open>
  Claim C1. When the upload middleware accepts the request with N files, N at least 1 (as
  it does when every part is a named image file under 10 MiB, lemma
  \<open>multer_any_images\<close>), and the server is configured, the reply is 200 with
  \<open>success = true\<close> whatever the provider does on each call, and so however many of the
  calls fail. \<open>results\<close> has one entry per file, entry \<open>i\<close> carrying index \<open>i\<close>;
  \<open>image_count\<close> is N; \<open>predictions\<close> is the concatenation, in the order of the
  entries, of the detection lists of the successful entries; an entry is successful with
  the provider's list in its own order (the empty list when the field is falsy), every
  detection stamped, exactly when the call resolved with an answer that can be read so;
  and \<open>total_defects\<close> is the length of \<open>predictions\<close>.
\<close>

theorem C1_partial_failure_aggregation:
  assumes up: "multer_any (file_parts req) = Inr files"
    and files: "files \<noteq> []"
    and conf: "\<not> not_configured e"
  shows "\<exists>a. fst (analyze e remote req) = Reply 200 (AnalysisBody a)
           \<and> success a
           \<and> length (results a) = length files
           \<and> image_count a = length files
           \<and> (\<forall>i<length files. imageIndex (results a ! i) = i)
           \<and> allPredictions a = concat (map predictions (filter is_Success (results a)))
           \<and> (\<forall>i<length files. is_Success (results a ! i) \<longrightarrow>
                 (\<exists>d ps. remote i (post_call e i (files ! i)) = Resolved d
                    \<and> js_or (js_get d ''predictions'') (JArr []) = JArr ps
                    \<and> predictions (results a ! i)
                        = map (stamp i (image_name i (files ! i))) ps))
           \<and> (\<forall>i<length files. \<forall>d ps.
                 remote i (post_call e i (files ! i)) = Resolved d \<and> \<not> nullish d
                 \<and> js_or (js_get d ''predictions'') (JArr []) = JArr ps \<longrightarrow>
                 is_Success (results a ! i)
                 \<and> predictions (results a ! i)
                     = map (stamp i (image_name i (files ! i))) ps)
           \<and> total_defects a = length (allPredictions a)"
proof -
  let ?rs = "map (\<lambda>(j, f). dispatch_item e remote j f) (enumerate 0 files)"
  have nth: "\<And>i. i < length files \<Longrightarrow> ?rs ! i = dispatch_item e remote i (files ! i)"
    by (rule nth_dispatch)
  have empty: "\<forall>r\<in>set ?rs. \<not> is_Success r \<longrightarrow> predictions r = []"
    by (auto simp: dispatch_item_failure_empty)
  have flat: "concat (map predictions ?rs) = concat (map predictions (filter is_Success ?rs))"
    using empty by (rule concat_predictions_filter)
  have succ: "\<forall>i<length files. is_Success (?rs ! i) \<longrightarrow>
      (\<exists>d ps. remote i (post_call e i (files ! i)) = Resolved d
          \<and> js_or (js_get d ''predictions'') (JArr []) = JArr ps
          \<and> predictions (?rs ! i) = map (stamp i (image_name i (files ! i))) ps)"
  proof (intro allI impI)
    fix i assume i: "i < length files" and s: "is_Success (?rs ! i)"
    from s nth [OF i] have "is_Success (dispatch_item e remote i (files ! i))"
      by simp
    from dispatch_item_SuccessD [OF this] nth [OF i]
    show "\<exists>d ps. remote i (post_call e i (files ! i)) = Resolved d
          \<and> js_or (js_get d ''predictions'') (JArr []) = JArr ps
          \<and> predictions (?rs ! i) = map (stamp i (image_name i (files ! i))) ps"
      by auto
  qed
  have conv: "\<forall>i<length files. \<forall>d ps.
      remote i (post_call e i (files ! i)) = Resolved d \<and> \<not> nullish d
      \<and> js_or (js_get d ''predictions'') (JArr []) = JArr ps \<longrightarrow>
      is_Success (?rs ! i)
      \<and> predictions (?rs ! i) = map (stamp i (image_name i (files ! i))) ps"
  proof (intro allI impI)
    fix i d ps
    assume i: "i < length files"
      and h: "remote i (post_call e i (files ! i)) = Resolved d \<and> \<not> nullish d
                \<and> js_or (js_get d ''predictions'') (JArr []) = JArr ps"
    from h have a: "remote i (post_call e i (files ! i)) = Resolved d"
      and n: "\<not> nullish d"
      and p: "js_or (js_get d ''predictions'') (JArr []) = JArr ps" by simp_all
    from dispatch_item_Resolved [of remote i e "files ! i" d ps, OF a n p] nth [OF i]
    show "is_Success (?rs ! i)
      \<and> predictions (?rs ! i) = map (stamp i (image_name i (files ! i))) ps"
      by simp
  qed
  have idx: "\<forall>i<length files. imageIndex (?rs ! i) = i"
    using nth by simp
  show ?thesis
    unfolding analyze_accepted [OF up files conf]
    using flat succ conv idx by simp
qed

theorem C1_partial_failure_aggregation_witness:
  "\<exists>a. fst (analyze sample_env first_fails
              \<lparr>file_parts = [FilePart wing_png False, FilePart tail_jpg False],
               area_field = Some ''wing''\<rparr>)
           = Reply 200 (AnalysisBody a)
       \<and> success a \<and> length (results a) = 2 \<and> image_count a = 2
       \<and> is_Success (results a ! 1) \<and> \<not> is_Success (results a ! 0)
       \<and> allPredictions a = predictions (results a ! 1)
       \<and> total_defects a = 1"
proof -
  let ?req = "\<lparr>file_parts = [FilePart wing_png False, FilePart tail_jpg False],
               area_field = Some ''wing''\<rparr>"
  have up: "multer_any (file_parts ?req) = Inr [wing_png, tail_jpg]"
    by (simp add: model_defs sample_defs)
  have files: "[wing_png, tail_jpg] \<noteq> []" by simp
  from C1_partial_failure_aggregation [OF up files configured_sample_env, of first_fails]
  show ?thesis
    by (simp add: analyze_first_fails)
qed

section \<open>Isolation of one image's failure\<close>

text \<open>
  Claim C2 as stated fails: a provider that answers a call with a page of text in place
  of JSON, a malformed response, does not give a failure outcome with a message. The
  per-image \<open>try\<close> reads no detections from the text and records a success with an
  empty list.
\<close>

theorem C2_counterexample:
  "fst (analyze sample_env html_answer
          \<lparr>file_parts = [FilePart wing_png False], area_field = None\<rparr>)
     = Reply 200 (AnalysisBody
         \<lparr>success = True, area = ''unknown'',
          results = [Success 0 ''wing.png'' [] JNull JNull],
          allPredictions = [], image_count = 1, total_defects = 0\<rparr>)"
  by (simp add: model_defs sample_defs)

text \<open>
  Claim C2, amended. When the upload is accepted with at least one file on a configured
  server, every file is dispatched exactly once and in submission order (the calls made
  to the provider are the files' calls, in order) and gives exactly one outcome: entry
  \<open>i\<close> of \<open>results\<close> carries the index and name of file \<open>i\<close>, and nothing is raised
  past the per-image boundary, the reply being the 200 analysis. A call that axios
  rejects gives the failure object with the error's message (or "Failed to process image"
  when it is empty). A call that resolves gives a success exactly when the answer is not
  \<open>null\<close> or \<open>undefined\<close> and its \<open>predictions\<close> field is falsy or an array; in
  particular an answer that is a text gives a success without detections. Every outcome
  that is not a success is a failure with a non-empty message and the empty detection
  list.
\<close>

theorem C2_per_item_isolation:
  assumes up: "multer_any (file_parts req) = Inr files"
    and files: "files \<noteq> []"
    and conf: "\<not> not_configured e"
  shows "\<exists>a. fst (analyze e remote req) = Reply 200 (AnalysisBody a)
           \<and> length (results a) = length files
           \<and> snd (analyze e remote req) = map (\<lambda>(i, f). post_call e i f) (enumerate 0 files)
           \<and> (\<forall>i<length files.
                 imageIndex (results a ! i) = i
                 \<and> imageName (results a ! i) = image_name i (files ! i)
                 \<and> (\<forall>err. remote i (post_call e i (files ! i)) = Rejected err \<longrightarrow>
                       results a ! i
                         = Failure i (image_name i (files ! i))
                             (str_or (message err) ''Failed to process image'') [])
                 \<and> (\<forall>d. remote i (post_call e i (files ! i)) = Resolved d \<longrightarrow>
                       (is_Success (results a ! i) \<longleftrightarrow>
                          \<not> nullish d
                          \<and> (\<exists>ps. js_or (js_get d ''predictions'') (JArr []) = JArr ps)))
                 \<and> (\<forall>s. remote i (post_call e i (files ! i)) = Resolved (JStr s) \<longrightarrow>
                       results a ! i = Success i (image_name i (files ! i)) [] JNull JNull)
                 \<and> (\<not> is_Success (results a ! i) \<longrightarrow>
                       predictions (results a ! i) = [] \<and> error (results a ! i) \<noteq> []))"
proof -
  have item: "\<forall>i<length files.
      (\<forall>err. remote i (post_call e i (files ! i)) = Rejected err \<longrightarrow>
          dispatch_item e remote i (files ! i)
            = Failure i (image_name i (files ! i))
                (str_or (message err) ''Failed to process image'') [])
      \<and> (\<forall>d. remote i (post_call e i (files ! i)) = Resolved d \<longrightarrow>
            (is_Success (dispatch_item e remote i (files ! i)) \<longleftrightarrow>
               \<not> nullish d
               \<and> (\<exists>ps. js_or (js_get d ''predictions'') (JArr []) = JArr ps)))
      \<and> (\<forall>s. remote i (post_call e i (files ! i)) = Resolved (JStr s) \<longrightarrow>
            dispatch_item e remote i (files ! i)
              = Success i (image_name i (files ! i)) [] JNull JNull)
      \<and> (\<not> is_Success (dispatch_item e remote i (files ! i)) \<longrightarrow>
            predictions (dispatch_item e remote i (files ! i)) = []
            \<and> error (dispatch_item e remote i (files ! i)) \<noteq> [])"
  proof (intro allI impI conjI)
    fix i err
    assume "remote i (post_call e i (files ! i)) = Rejected err"
    then show "dispatch_item e remote i (files ! i)
            = Failure i (image_name i (files ! i))
                (str_or (message err) ''Failed to process image'') []"
      by (rule dispatch_item_Rejected)
  next
    fix i d
    assume "remote i (post_call e i (files ! i)) = Resolved d"
    then show "is_Success (dispatch_item e remote i (files ! i)) \<longleftrightarrow>
               \<not> nullish d
               \<and> (\<exists>ps. js_or (js_get d ''predictions'') (JArr []) = JArr ps)"
      by (rule dispatch_item_Success_iff)
  next
    fix i s
    assume a: "remote i (post_call e i (files ! i)) = Resolved (JStr s)"
    have n: "\<not> nullish (JStr s)" by simp
    have p: "js_or (js_get (JStr s) ''predictions'') (JArr []) = JArr []"
      by (simp add: js_or_def)
    from dispatch_item_Resolved [of remote i e "files ! i" "JStr s" "[]", OF a n p]
    show "dispatch_item e remote i (files ! i)
              = Success i (image_name i (files ! i)) [] JNull JNull"
      by (simp add: js_or_def js_member_opt_def)
  next
    fix i
    assume "\<not> is_Success (dispatch_item e remote i (files ! i))"
    then show "predictions (dispatch_item e remote i (files ! i)) = []"
      by (rule dispatch_item_failure_empty)
  next
    fix i
    assume "\<not> is_Success (dispatch_item e remote i (files ! i))"
    then show "error (dispatch_item e remote i (files ! i)) \<noteq> []"
      by (rule dispatch_item_failure_message)
  qed
  show ?thesis
    unfolding analyze_accepted [OF up files conf]
    using item by (simp add: nth_enumerate_eq)
qed

theorem C2_per_item_isolation_witness:
  "\<exists>a. fst (analyze sample_env first_fails
              \<lparr>file_parts = [FilePart wing_png False, FilePart tail_jpg False],
               area_field = Some ''wing''\<rparr>)
           = Reply 200 (AnalysisBody a)
       \<and> length (results a) = 2
       \<and> length (snd (analyze sample_env first_fails
              \<lparr>file_parts = [FilePart wing_png False, FilePart tail_jpg False],
               area_field = Some ''wing''\<rparr>)) = 2
       \<and> results a ! 0 = Failure 0 ''wing.png'' ''timeout of 10000ms exceeded'' []
       \<and> is_Success (results a ! 1) \<and> imageIndex (results a ! 1) = 1"
proof -
  let ?req = "\<lparr>file_parts = [FilePart wing_png False, FilePart tail_jpg False],
               area_field = Some ''wing''\<rparr>"
  have up: "multer_any (file_parts ?req) = Inr [wing_png, tail_jpg]"
    by (simp add: model_defs sample_defs)
  have files: "[wing_png, tail_jpg] \<noteq> []" by simp
  from C2_per_item_isolation [OF up files configured_sample_env, of first_fails]
  show ?thesis
    by (simp add: analyze_first_fails)
qed

section \<open>Provenance of the flattened detections\<close>

lemma analyze_AnalysisBodyD:
  assumes "fst (analyze e remote req) = Reply st (AnalysisBody a)"
  shows "\<exists>files. multer_any (file_parts req) = Inr files \<and> files \<noteq> []
           \<and> results a = map (\<lambda>(j, f). dispatch_item e remote j f) (enumerate 0 files)
           \<and> allPredictions a = concat (map predictions (results a))"
proof (cases "multer_any (file_parts req)")
  case (Inl err)
  with assms show ?thesis
    by (simp add: analyze_def upload_error_reply_def error_middleware_def split: if_splits)
next
  case (Inr files)
  show ?thesis
  proof (cases "files = [] \<or> not_configured e")
    case True
    with assms Inr show ?thesis
      by (auto simp: analyze_def handler_try_def split: if_splits)
  next
    case False
    then have f: "files \<noteq> []" and c: "\<not> not_configured e" by simp_all
    from assms Inr show ?thesis
      by (auto simp: analyze_def handler_try_ok [OF f c] f)
  qed
qed

text \<open>
  Claim C3. In every analysis the server sends, each detection of the flattened
  \<open>predictions\<close> list belongs to the detection list of an entry \<open>j\<close> of \<open>results\<close>,
  and its \<open>imageIndex\<close> and \<open>imageName\<close> fields equal those of entry \<open>k\<close> exactly
  when \<open>k = j\<close>: they match one entry and no other.
\<close>

theorem C3_provenance:
  assumes rep: "fst (analyze e remote req) = Reply 200 (AnalysisBody a)"
    and d: "d \<in> set (allPredictions a)"
  shows "\<exists>j<length (results a). d \<in> set (predictions (results a ! j)) \<and>
           (\<forall>k<length (results a).
              (js_get d ''imageIndex'' = JNum (int (imageIndex (results a ! k)))
               \<and> js_get d ''imageName'' = JStr (imageName (results a ! k)))
              \<longleftrightarrow> k = j)"
proof -
  from analyze_AnalysisBodyD [OF rep] obtain files where
    rs: "results a = map (\<lambda>(j, f). dispatch_item e remote j f) (enumerate 0 files)"
    and ap: "allPredictions a = concat (map predictions (results a))"
    by blast
  from d ap obtain r where r: "r \<in> set (results a)" and dr: "d \<in> set (predictions r)"
    by auto
  from r obtain j where j: "j < length (results a)" and rj: "results a ! j = r"
    by (auto simp: in_set_conv_nth)
  have len: "length (results a) = length files" by (simp add: rs)
  have nth: "\<And>k. k < length (results a) \<Longrightarrow> results a ! k = dispatch_item e remote k (files ! k)"
    unfolding rs using len by (simp add: nth_enumerate_eq)
  have "predictions (dispatch_item e remote j (files ! j)) \<noteq> []"
    using dr rj nth [OF j] by auto
  then have "is_Success (dispatch_item e remote j (files ! j))"
    using dispatch_item_failure_empty by blast
  from dispatch_item_SuccessD [OF this] dr rj nth [OF j]
  obtain p where dp: "d = stamp j (image_name j (files ! j)) p"
    by auto
  have "\<forall>k<length (results a).
              (js_get d ''imageIndex'' = JNum (int (imageIndex (results a ! k)))
               \<and> js_get d ''imageName'' = JStr (imageName (results a ! k)))
              \<longleftrightarrow> k = j"
    by (auto simp: nth dp js_get_stamp_index js_get_stamp_name)
  with j dr rj show ?thesis by blast
qed

theorem C3_provenance_witness:
  "\<exists>j<2. stamp 1 ''tail.jpg'' crack
        \<in> set (predictions ([Failure 0 ''wing.png'' ''timeout of 10000ms exceeded'' [],
              Success 1 ''tail.jpg'' [stamp 1 ''tail.jpg'' crack] (JNum 640) (JNum 480)] ! j))
      \<and> js_get (stamp 1 ''tail.jpg'' crack) ''imageIndex'' = JNum (int j)"
proof -
  let ?req = "\<lparr>file_parts = [FilePart wing_png False, FilePart tail_jpg False],
               area_field = Some ''wing''\<rparr>"
  let ?a = "\<lparr>success = True, area = ''wing'',
         results =
           [Failure 0 ''wing.png'' ''timeout of 10000ms exceeded'' [],
            Success 1 ''tail.jpg'' [stamp 1 ''tail.jpg'' crack] (JNum 640) (JNum 480)],
         allPredictions = [stamp 1 ''tail.jpg'' crack],
         image_count = 2, total_defects = 1\<rparr>"
  have rep: "fst (analyze sample_env first_fails ?req) = Reply 200 (AnalysisBody ?a)"
    by (simp add: analyze_first_fails stamp_def crack_def)
  have d: "stamp 1 ''tail.jpg'' crack \<in> set (allPredictions ?a)" by simp
  from C3_provenance [OF rep d] obtain j where
    j: "j < length (results ?a)"
    and m: "stamp 1 ''tail.jpg'' crack \<in> set (predictions (results ?a ! j))"
    by blast
  from j have "j = 0 \<or> j = 1" by auto
  then show ?thesis
  proof
    assume "j = 0"
    with m show ?thesis by simp
  next
    assume "j = 1"
    with m show ?thesis
      by (intro exI [of _ 1]) (simp add: js_get_stamp_index)
  qed
qed

section \<open>Rejections before any call\<close>

lemma stored_files_nonempty:
  "stored_files q \<noteq> [] \<Longrightarrow> \<exists>f c. q = FilePart f c \<and> originalname f \<noteq> []"
  by (cases q) (auto split: if_splits)

text \<open>
  Claim C4 as stated fails: a request without a file, but with a text field longer than
  the upload library allows, is refused by the upload middleware before the handler looks
  at the files, and the callback replies "Upload error".
\<close>

theorem C4_counterexample:
  "concat (map stored_files [Refused field_too_long]) = []
   \<and> fst (analyze sample_env first_fails
            \<lparr>file_parts = [Refused field_too_long], area_field = None\<rparr>)
       = Reply 400 (ErrorBody ''Upload error'' ''Field value too long'')"
  by (simp add: model_defs sample_defs)

text \<open>
  Claim C4, amended. A request whose upload the middleware accepts without a file gets
  400 "No images provided" and no call is made, whatever the configuration: the check of
  the files comes before the check of the configuration. Accordingly a reply 500 "API not
  configured" is only ever sent to a request whose upload was accepted with at least one
  file, and so holds a named file part.
\<close>

theorem C4_no_images_before_configuration:
  "(multer_any (file_parts req) = Inr [] \<longrightarrow>
      analyze e remote req
        = (Reply 400 (ErrorBody ''No images provided''
                        ''Please upload at least one image file''), []))
   \<and> ((\<exists>m. fst (analyze e remote req) = Reply 500 (ErrorBody ''API not configured'' m)) \<longrightarrow>
        (\<exists>files. multer_any (file_parts req) = Inr files \<and> files \<noteq> [])
        \<and> (\<exists>f c. FilePart f c \<in> set (file_parts req) \<and> originalname f \<noteq> []))"
proof (intro conjI impI)
  assume "multer_any (file_parts req) = Inr []"
  then show "analyze e remote req
        = (Reply 400 (ErrorBody ''No images provided''
                        ''Please upload at least one image file''), [])"
    by (simp add: analyze_def handler_try_def)
next
  assume "\<exists>m. fst (analyze e remote req) = Reply 500 (ErrorBody ''API not configured'' m)"
  then obtain m where
    m: "fst (analyze e remote req) = Reply 500 (ErrorBody ''API not configured'' m)"
    by blast
  show "\<exists>files. multer_any (file_parts req) = Inr files \<and> files \<noteq> []"
  proof (cases "multer_any (file_parts req)")
    case (Inl err)
    with m show ?thesis
      by (simp add: analyze_def upload_error_reply_def error_middleware_def
               split: if_splits)
  next
    case (Inr files)
    with m have "files \<noteq> []"
      by (auto simp: analyze_def handler_try_def)
    with Inr show ?thesis by simp
  qed
  then obtain files where up: "multer_any (file_parts req) = Inr files"
    and ne: "files \<noteq> []" by blast
  from multer_any_InrD [OF up] ne
  obtain q where "q \<in> set (file_parts req)" and "stored_files q \<noteq> []"
    by auto
  with stored_files_nonempty [of q]
  show "\<exists>f c. FilePart f c \<in> set (file_parts req) \<and> originalname f \<noteq> []"
    by auto
qed

theorem C4_no_images_before_configuration_witness:
  "analyze unset_env always_forbidden \<lparr>file_parts = [], area_field = None\<rparr>
     = (Reply 400 (ErrorBody ''No images provided''
                     ''Please upload at least one image file''), [])
   \<and> not_configured unset_env
   \<and> fst (analyze unset_env always_forbidden
            \<lparr>file_parts = [FilePart wing_png False], area_field = None\<rparr>)
       = Reply 500 (ErrorBody ''API not configured''
           ''Please set ROBOFLOW_API_KEY and ROBOFLOW_MODEL_ID in your .env file'')
   \<and> multer_any [FilePart wing_png False] = Inr [wing_png]
   \<and> originalname wing_png \<noteq> []"
  using C4_no_images_before_configuration
          [of "\<lparr>file_parts = [], area_field = None\<rparr>" unset_env always_forbidden]
        C4_no_images_before_configuration
          [of "\<lparr>file_parts = [FilePart wing_png False], area_field = None\<rparr>"
              unset_env always_forbidden]
  by (simp add: model_defs sample_defs)

text \<open>
  Claim C9. When the upload is accepted and holds at least one file, the server answers
  500 "API not configured" without calling the provider as soon as the credential or the
  model identifier is unset, empty, or equal to its placeholder \<open>YOUR_KEY_HERE\<close> or
  \<open>YOUR_MODEL_ID_HERE\<close>.
\<close>

theorem C9_placeholder_configuration:
  assumes up: "multer_any (file_parts req) = Inr files" and files: "files \<noteq> []"
    and conf: "env_ROBOFLOW_API_KEY e \<in> {None, Some [], Some ''YOUR_KEY_HERE''}
             \<or> env_ROBOFLOW_MODEL_ID e \<in> {None, Some [], Some ''YOUR_MODEL_ID_HERE''}"
  shows "analyze e remote req
           = (Reply 500 (ErrorBody ''API not configured''
                ''Please set ROBOFLOW_API_KEY and ROBOFLOW_MODEL_ID in your .env file''), [])"
proof -
  from conf have "not_configured e"
    by (auto simp: not_configured_def ROBOFLOW_API_KEY_def ROBOFLOW_MODEL_ID_def str_or_def)
  with up files show ?thesis
    by (simp add: analyze_def handler_try_def)
qed

theorem C9_placeholder_configuration_witness:
  "analyze placeholder_env first_fails
      \<lparr>file_parts = [FilePart wing_png False], area_field = None\<rparr>
     = (Reply 500 (ErrorBody ''API not configured''
          ''Please set ROBOFLOW_API_KEY and ROBOFLOW_MODEL_ID in your .env file''), [])"
proof -
  have up: "multer_any (file_parts \<lparr>file_parts = [FilePart wing_png False],
                                   area_field = None\<rparr>) = Inr [wing_png]"
    by (simp add: model_defs sample_defs)
  have conf: "env_ROBOFLOW_API_KEY placeholder_env \<in> {None, Some [], Some ''YOUR_KEY_HERE''}
             \<or> env_ROBOFLOW_MODEL_ID placeholder_env \<in> {None, Some [], Some ''YOUR_MODEL_ID_HERE''}"
    by (simp add: placeholder_env_def)
  from C9_placeholder_configuration [OF up _ conf, of first_fails]
  show ?thesis by simp
qed

subsection \<open>Files of another type\<close>

text \<open>
  Claim C5 as stated fails: the request below holds a text file, yet the image ahead of
  it is over the size limit and ends the upload first, so the reply names the size, not
  the type.
\<close>

theorem C5_counterexample:
  "FilePart notes_txt False \<in> set [FilePart big_png False, FilePart notes_txt False]
   \<and> originalname notes_txt \<noteq> []
   \<and> take 6 (mimetype notes_txt) \<noteq> ''image/''
   \<and> fst (analyze sample_env first_fails
            \<lparr>file_parts = [FilePart big_png False, FilePart notes_txt False],
             area_field = None\<rparr>)
       = Reply 400 (ErrorBody ''File too large'' ''Image must be less than 10MB'')"
  by (simp add: model_defs sample_defs)

text \<open>
  Claim C5, amended. A request holding a named file whose media type does not start
  with \<open>image/\<close> gets an error reply with status 400 or 500 and no call is made to the
  provider. The reply is 400 "Invalid file type" whenever no part of the body ahead of
  that file ends the upload first (as an image over the size limit or a part the upload
  library refuses does).
\<close>

theorem C5_invalid_type_rejected:
  assumes p: "FilePart p c \<in> set (file_parts req)" and named: "originalname p \<noteq> []"
    and type: "take 6 (mimetype p) \<noteq> ''image/''"
  shows "snd (analyze e remote req) = []
       \<and> (\<exists>st code msg. fst (analyze e remote req) = Reply st (ErrorBody code msg)
                         \<and> (st = 400 \<or> st = 500))
       \<and> ((\<forall>q\<in>set (takeWhile (\<lambda>q. q \<noteq> FilePart p c) (file_parts req)).
              part_error q = None) \<longrightarrow>
            fst (analyze e remote req)
              = Reply 400 (ErrorBody ''Invalid file type'' ''Only image files are allowed''))"
proof -
  have pe: "part_error (FilePart p c) = Some (Error ''Only image files are allowed'')"
    using named type by (simp add: fileFilter_def)
  have first: "(\<forall>q\<in>set (takeWhile (\<lambda>q. q \<noteq> FilePart p c) (file_parts req)).
              part_error q = None) \<longrightarrow>
            fst (analyze e remote req)
              = Reply 400 (ErrorBody ''Invalid file type'' ''Only image files are allowed'')"
  proof
    assume "\<forall>q\<in>set (takeWhile (\<lambda>q. q \<noteq> FilePart p c) (file_parts req)).
              part_error q = None"
    with p have "multer_any (file_parts req) = Inl (Error ''Only image files are allowed'')"
      using pe by (rule multer_any_reaches)
    then show "fst (analyze e remote req)
              = Reply 400 (ErrorBody ''Invalid file type'' ''Only image files are allowed'')"
      by (simp add: analyze_Inl upload_error_reply_type)
  qed
  from analyze_refused [OF p pe] first show ?thesis by simp
qed

theorem C5_invalid_type_rejected_witness:
  "analyze sample_env first_fails
      \<lparr>file_parts = [FilePart wing_png False, FilePart notes_txt False, FilePart big_png False],
       area_field = None\<rparr>
     = (Reply 400 (ErrorBody ''Invalid file type'' ''Only image files are allowed''), [])"
proof -
  let ?req = "\<lparr>file_parts = [FilePart wing_png False, FilePart notes_txt False,
                              FilePart big_png False],
               area_field = None\<rparr>"
  have p: "FilePart notes_txt False \<in> set (file_parts ?req)" by simp
  have named: "originalname notes_txt \<noteq> []" by (simp add: notes_txt_def)
  have type: "take 6 (mimetype notes_txt) \<noteq> ''image/''" by (simp add: notes_txt_def)
  have ahead: "\<forall>q\<in>set (takeWhile (\<lambda>q. q \<noteq> FilePart notes_txt False) (file_parts ?req)).
              part_error q = None"
    by (simp add: model_defs sample_defs)
  from C5_invalid_type_rejected [OF p named type, of sample_env first_fails] ahead
  show ?thesis
    by (simp add: prod_eq_iff)
qed

subsection \<open>Files over the size limit\<close>

text \<open>
  Claim C8 as stated fails: a file that is over the limit and not an image is refused by
  \<open>fileFilter\<close> before any of its content is read, so the reply names the type.
\<close>

theorem C8_counterexample:
  "FilePart dump_txt False \<in> set [FilePart dump_txt False]
   \<and> originalname dump_txt \<noteq> []
   \<and> fileSize < size_bytes dump_txt
   \<and> fst (analyze sample_env first_fails
            \<lparr>file_parts = [FilePart dump_txt False], area_field = None\<rparr>)
       = Reply 400 (ErrorBody ''Invalid file type'' ''Only image files are allowed'')"
  by (simp add: model_defs sample_defs)

text \<open>
  Claim C8, amended. A request holding a named file of more than 10 MiB gets an error
  reply with status 400 or 500 and no call is made to the provider. Whenever no part of
  the body ahead of that file ends the upload first, the reply is 400 "File too large" if
  the file's media type starts with \<open>image/\<close> and 400 "Invalid file type" if it does
  not.
\<close>

theorem C8_oversized_rejected:
  assumes p: "FilePart p c \<in> set (file_parts req)" and named: "originalname p \<noteq> []"
    and big: "fileSize < size_bytes p"
  shows "snd (analyze e remote req) = []
       \<and> (\<exists>st code msg. fst (analyze e remote req) = Reply st (ErrorBody code msg)
                         \<and> (st = 400 \<or> st = 500))
       \<and> ((\<forall>q\<in>set (takeWhile (\<lambda>q. q \<noteq> FilePart p c) (file_parts req)).
              part_error q = None) \<longrightarrow>
            fst (analyze e remote req)
              = (if take 6 (mimetype p) = ''image/''
                 then Reply 400 (ErrorBody ''File too large'' ''Image must be less than 10MB'')
                 else Reply 400 (ErrorBody ''Invalid file type''
                                   ''Only image files are allowed'')))"
proof -
  have pe: "part_error (FilePart p c)
      = Some (if take 6 (mimetype p) = ''image/''
              then MulterError ''LIMIT_FILE_SIZE'' ''File too large''
              else Error ''Only image files are allowed'')"
    using named big by (simp add: fileFilter_def over_limit_def)
  have first: "(\<forall>q\<in>set (takeWhile (\<lambda>q. q \<noteq> FilePart p c) (file_parts req)).
              part_error q = None) \<longrightarrow>
            fst (analyze e remote req)
              = (if take 6 (mimetype p) = ''image/''
                 then Reply 400 (ErrorBody ''File too large'' ''Image must be less than 10MB'')
                 else Reply 400 (ErrorBody ''Invalid file type''
                                   ''Only image files are allowed''))"
  proof
    assume "\<forall>q\<in>set (takeWhile (\<lambda>q. q \<noteq> FilePart p c) (file_parts req)).
              part_error q = None"
    with p have "multer_any (file_parts req)
      = Inl (if take 6 (mimetype p) = ''image/''
             then MulterError ''LIMIT_FILE_SIZE'' ''File too large''
             else Error ''Only image files are allowed'')"
      using pe by (rule multer_any_reaches)
    then show "fst (analyze e remote req)
              = (if take 6 (mimetype p) = ''image/''
                 then Reply 400 (ErrorBody ''File too large'' ''Image must be less than 10MB'')
                 else Reply 400 (ErrorBody ''Invalid file type''
                                   ''Only image files are allowed''))"
      by (simp add: analyze_Inl upload_error_reply_type upload_error_reply_size)
  qed
  from analyze_refused [OF p pe] first show ?thesis by simp
qed

theorem C8_oversized_rejected_witness:
  "analyze sample_env first_fails
      \<lparr>file_parts = [FilePart wing_png False, FilePart big_png False, FilePart notes_txt False],
       area_field = None\<rparr>
     = (Reply 400 (ErrorBody ''File too large'' ''Image must be less than 10MB''), [])"
proof -
  let ?req = "\<lparr>file_parts = [FilePart wing_png False, FilePart big_png False,
                              FilePart notes_txt False],
               area_field = None\<rparr>"
  have p: "FilePart big_png False \<in> set (file_parts ?req)" by simp
  have named: "originalname big_png \<noteq> []" by (simp add: big_png_def)
  have big: "fileSize < size_bytes big_png" by (simp add: big_png_def fileSize_def)
  have img: "take 6 (mimetype big_png) = ''image/''" by (simp add: big_png_def)
  have ahead: "\<forall>q\<in>set (takeWhile (\<lambda>q. q \<noteq> FilePart big_png False) (file_parts ?req)).
              part_error q = None"
    by (simp add: model_defs sample_defs)
  from C8_oversized_rejected [OF p named big, of sample_env first_fails] ahead img
  show ?thesis
    by (simp add: prod_eq_iff)
qed

section \<open>Provider errors and the outer catch\<close>


text \<open>
  What the outer \<open>catch\<close> would reply to an error that carries a provider answer with
  status 403, were one to reach it.
\<close>

lemma outer_catch_forbidden:
  "outer_catch forbidden_error
     = Reply 403 (RoboflowErrorBody ''Roboflow API error''
         (JStr (forbidden_guidance @ ''Forbidden'')) 403 ''Forbidden'' (JStr ''Forbidden''))"
  by (simp add: outer_catch_def forbidden_error_def js_or_def js_member_opt_def str_or_def)




section \<open>Reading the provider's answer\<close>

text \<open>
  Claim C7. When the provider answers with an object whose \<open>predictions\<close> field is
  absent or an array, the outcome is a success: its detection list is empty when the
  field is absent and otherwise the array's elements in order, each stamped, so that
  every detection reads back the file's index and name; \<open>image_width\<close> and
  \<open>image_height\<close> are \<open>null\<close> when \<open>image\<close> is absent or lacks the field.
\<close>

theorem C7_optional_fields:
  assumes ans: "remote i (post_call e i f) = Resolved (JObj kvs)"
    and wf: "map_of kvs ''predictions'' = None \<or> map_of kvs ''predictions'' = Some (JArr ps)"
  shows "is_Success (dispatch_item e remote i f)
       \<and> predictions (dispatch_item e remote i f)
           = (if map_of kvs ''predictions'' = None then []
              else map (stamp i (image_name i f)) ps)
       \<and> (\<forall>d\<in>set (predictions (dispatch_item e remote i f)).
             js_get d ''imageIndex'' = JNum (int i)
             \<and> js_get d ''imageName'' = JStr (image_name i f))
       \<and> (map_of kvs ''image'' = None \<longrightarrow>
             image_width (dispatch_item e remote i f) = JNull
             \<and> image_height (dispatch_item e remote i f) = JNull)
       \<and> (\<forall>img. map_of kvs ''image'' = Some img \<and> js_member_opt img ''width'' = JUndefined
             \<longrightarrow> image_width (dispatch_item e remote i f) = JNull)
       \<and> (\<forall>img. map_of kvs ''image'' = Some img \<and> js_member_opt img ''height'' = JUndefined
             \<longrightarrow> image_height (dispatch_item e remote i f) = JNull)"
proof -
  define qs where "qs = (if map_of kvs ''predictions'' = None then [] else ps)"
  have "js_or (js_get (JObj kvs) ''predictions'') (JArr []) = JArr qs"
    using wf by (auto simp: qs_def js_or_def)
  with ans have "item_try e remote i f =
     Inr (Success i (image_name i f) (map (stamp i (image_name i f)) qs)
            (js_or (js_member_opt (js_get (JObj kvs) ''image'') ''width'') JNull)
            (js_or (js_member_opt (js_get (JObj kvs) ''image'') ''height'') JNull))"
    by (intro item_try_Resolved) simp_all
  then have eq: "dispatch_item e remote i f =
     Success i (image_name i f) (map (stamp i (image_name i f)) qs)
            (js_or (js_member_opt (js_get (JObj kvs) ''image'') ''width'') JNull)
            (js_or (js_member_opt (js_get (JObj kvs) ''image'') ''height'') JNull)"
    by (simp add: dispatch_item_def)
  have p: "predictions (dispatch_item e remote i f)
           = (if map_of kvs ''predictions'' = None then []
              else map (stamp i (image_name i f)) ps)"
    by (simp add: eq qs_def)
  have s: "\<forall>d\<in>set (predictions (dispatch_item e remote i f)).
             js_get d ''imageIndex'' = JNum (int i)
             \<and> js_get d ''imageName'' = JStr (image_name i f)"
    by (auto simp: eq js_get_stamp_index js_get_stamp_name)
  have w0: "map_of kvs ''image'' = None \<longrightarrow>
             image_width (dispatch_item e remote i f) = JNull
             \<and> image_height (dispatch_item e remote i f) = JNull"
    by (simp add: eq js_or_def js_member_opt_def)
  have w1: "\<forall>img. map_of kvs ''image'' = Some img \<and> js_member_opt img ''width'' = JUndefined
             \<longrightarrow> image_width (dispatch_item e remote i f) = JNull"
    by (simp add: eq js_or_def)
  have h1: "\<forall>img. map_of kvs ''image'' = Some img \<and> js_member_opt img ''height'' = JUndefined
             \<longrightarrow> image_height (dispatch_item e remote i f) = JNull"
    by (simp add: eq js_or_def)
  have "is_Success (dispatch_item e remote i f)" by (simp add: eq)
  with p s w0 w1 h1 show ?thesis by blast
qed

theorem C7_optional_fields_witness:
  "dispatch_item sample_env empty_answer 0 wing_png = Success 0 ''wing.png'' [] JNull JNull"
proof -
  have ans: "empty_answer 0 (post_call sample_env 0 wing_png) = Resolved (JObj [])"
    by (simp add: empty_answer_def)
  have wf: "map_of [] ''predictions'' = None \<or> map_of [] ''predictions'' = Some (JArr [])"
    by simp
  from C7_optional_fields [of empty_answer 0 sample_env wing_png "[]" "[]", OF ans wf]
  show ?thesis
    by (simp add: model_defs sample_defs)
qed

text \<open>
  Claim C10. In a successful outcome a falsy width or height in the provider's answer
  is reported as \<open>null\<close>: an answer with width 0 and an answer without a width give the
  same \<open>image_width\<close>.
\<close>

theorem C10_falsy_dimension_is_null:
  assumes ans: "remote i (post_call e i f) = Resolved d"
    and ok: "is_Success (dispatch_item e remote i f)"
  shows "(\<not> truthy (js_member_opt (js_get d ''image'') ''width'') \<longrightarrow>
            image_width (dispatch_item e remote i f) = JNull)
       \<and> (\<not> truthy (js_member_opt (js_get d ''image'') ''height'') \<longrightarrow>
            image_height (dispatch_item e remote i f) = JNull)
       \<and> (js_member_opt (js_get d ''image'') ''width'' \<in> {JUndefined, JNum 0} \<longrightarrow>
            image_width (dispatch_item e remote i f) = JNull)
       \<and> (js_member_opt (js_get d ''image'') ''height'' \<in> {JUndefined, JNum 0} \<longrightarrow>
            image_height (dispatch_item e remote i f) = JNull)"
proof -
  from dispatch_item_SuccessD [OF ok] ans
  have "image_width (dispatch_item e remote i f)
          = js_or (js_member_opt (js_get d ''image'') ''width'') JNull"
    and "image_height (dispatch_item e remote i f)
          = js_or (js_member_opt (js_get d ''image'') ''height'') JNull"
    by auto
  then show ?thesis
    by (auto simp: js_or_def)
qed

theorem C10_falsy_dimension_is_null_witness:
  "dispatch_item sample_env zero_width 0 wing_png = Success 0 ''wing.png'' [] JNull (JNum 480)
   \<and> image_width (dispatch_item sample_env empty_answer 0 wing_png) = JNull"
proof -
  have ans: "zero_width 0 (post_call sample_env 0 wing_png)
     = Resolved (JObj [(''predictions'', JArr []),
                     (''image'', JObj [(''width'', JNum 0), (''height'', JNum 480)])])"
    by (simp add: zero_width_def)
  have ok: "is_Success (dispatch_item sample_env zero_width 0 wing_png)"
    by (simp add: model_defs sample_defs)
  from C10_falsy_dimension_is_null [OF ans ok]
  show ?thesis
    by (simp add: model_defs sample_defs)
qed

end
